theory Spec2Isabelle
  imports Complex_Main
begin

section \<open>The file uploader component (FileUploader)\<close>

text \<open>
  A shallow embedding of the React component \<open>FileUploader\<close>. The component's
  \<open>useState\<close> cells are the fields of the record \<open>state\<close>; every handler is a
  function from the state before to the state after. What a handler does to the
  outside (notifications, the upload request, the completion callback, the notes
  update call) is appended to a log kept in the same record, so that "is called
  once" and "issues no request" are statements about lists.

  The two asynchronous handlers (\<open>handleUpload\<close>, \<open>handleSaveNotes\<close>) are cut at
  their single \<open>await\<close>: the part before it, which captures the values of the
  render it was created in, and the part after it, which runs when the promise
  settles.
\<close>

subsection \<open>Data\<close>

text \<open>A browser \<open>File\<close>: name, byte size and MIME type; the content is opaque.\<close>

record js_file =
  file_name :: string
  file_size :: nat
  file_type :: string

datatype upload_type = Raw | Edited

datatype upload_method = Local | Dropbox | Google

text \<open>
  A JavaScript number, as far as the component meets one: a finite double that is not
  negative, given by the rational it denotes, or \<open>Infinity\<close>, or \<open>NaN\<close>.
\<close>

datatype js_number = Num rat | Infinity | NaN

record toast =
  title :: string
  description :: string
  destructive :: bool

text \<open>The key of the \<open>notes\<close> object sent to \<open>updateShoot\<close>.\<close>

datatype note_field = PhotographerNotes | EditingNotes | ShootNotes

text \<open>One call of \<open>axios.post\<close>: the shoot id in the URL, the bearer token, the form's files.\<close>

record upload_request =
  req_shootId :: "string option"
  req_token :: string
  req_files :: "js_file list"

text \<open>
  What a call of the caller's \<open>onUploadComplete\<close> does to the handler that calls it: it
  returns, or it throws.
\<close>

datatype callback_result = Returned | Threw

text \<open>
  The props and the value of the hook \<open>useAuth\<close> (the role of the user, absent when
  there is no user). \<open>onUploadComplete\<close> is optional.
\<close>

record props =
  shootId :: "string option"
  onUploadComplete :: "(js_file list \<Rightarrow> string \<Rightarrow> callback_result) option"
  allowedFileTypes :: "string list"
  initialNotes :: string
  role :: "string option"

record state =
  uploadType :: upload_type
  files :: "js_file list"
  uploading :: bool
  progress :: js_number
  notesText :: string
  notesChanged :: bool
  uploadMethod :: upload_method
  toasts :: "toast list"
  requests :: "upload_request list"
  completions :: "(js_file list \<times> string) list"
  updates :: "(string \<times> note_field \<times> string) list"

text \<open>What the closure of one \<open>handleUpload\<close> call holds across its \<open>await\<close>.\<close>

record upload_closure =
  c_files :: "js_file list"
  c_notes :: string

datatype outcome = Resolved | Rejected

text \<open>
  A progress event: the byte counts \<open>loaded\<close> and \<open>total\<close>; \<open>total\<close> is undefined when
  the length of the request is not known.
\<close>

record progress_event =
  loaded :: nat
  total :: "nat option"

subsection \<open>Strings\<close>

definition digit_char :: "nat \<Rightarrow> char" where
  "digit_char d = char_of (48 + d)"

function string_of_nat :: "nat \<Rightarrow> string" where
  "string_of_nat n =
     (if n < 10 then [digit_char n] else string_of_nat (n div 10) @ [digit_char (n mod 10)])"
  by pat_completeness auto
termination
  by (relation "measure (\<lambda>n. n)") auto

text \<open>\<open>Array.prototype.join\<close>.\<close>

fun join :: "string \<Rightarrow> string list \<Rightarrow> string" where
  "join sep [] = []"
| "join sep [x] = x"
| "join sep (x # y # ys) = x @ sep @ join sep (y # ys)"

text \<open>\<open>!s\<close> for an optional string: absent or empty.\<close>

definition falsy :: "string option \<Rightarrow> bool" where
  "falsy v = (case v of None \<Rightarrow> True | Some s \<Rightarrow> s = [])"

subsection \<open>Initial state and notes\<close>

definition defaultAllowedFileTypes :: "string list" where
  "defaultAllowedFileTypes =
     [''image/jpeg'', ''image/png'', ''image/tiff'',
      ''video/mp4'', ''video/quicktime'',
      ''application/zip'', ''application/x-zip-compressed'']"

definition initialUploadType :: "props \<Rightarrow> upload_type" where
  "initialUploadType p = (if role p = Some ''editor'' then Edited else Raw)"

definition init :: "props \<Rightarrow> state" where
  "init p =
     \<lparr>uploadType = initialUploadType p, files = [], uploading = False, progress = Num 0,
      notesText = initialNotes p, notesChanged = False, uploadMethod = Local,
      toasts = [], requests = [], completions = [], updates = []\<rparr>"

text \<open>The effect on \<open>initialNotes\<close>; the prop defaults to the empty string, so it is never undefined.\<close>

definition initialNotes_effect :: "props \<Rightarrow> state \<Rightarrow> state" where
  "initialNotes_effect p s =
     (if initialNotes p \<noteq> notesText s \<and> \<not> notesChanged s then s\<lparr>notesText := initialNotes p\<rparr> else s)"

definition handleNotesChange :: "string \<Rightarrow> state \<Rightarrow> state" where
  "handleNotesChange v s = s\<lparr>notesText := v, notesChanged := True\<rparr>"

definition add_toast :: "toast \<Rightarrow> state \<Rightarrow> state" where
  "add_toast t s = s\<lparr>toasts := toasts s @ [t]\<rparr>"

text \<open>The branch chain of \<open>handleSaveNotes\<close> that picks the field of \<open>notesUpdate\<close>.\<close>

definition notesUpdate_field :: "props \<Rightarrow> state \<Rightarrow> note_field" where
  "notesUpdate_field p s =
     (if role p = Some ''photographer'' then PhotographerNotes
      else if role p = Some ''editor'' then EditingNotes
      else if role p = Some ''admin'' \<or> role p = Some ''superadmin'' then
        (if uploadType s = Raw then PhotographerNotes else EditingNotes)
      else ShootNotes)"

text \<open>
  \<open>handleSaveNotes\<close> up to its \<open>await\<close>: the result says whether \<open>updateShoot\<close> was
  called (and the handler is now waiting for it).
\<close>

definition cannot_save :: "state \<Rightarrow> state \<times> bool" where
  "cannot_save s =
     (add_toast \<lparr>title = ''Cannot save notes'', description = ''No shoot ID provided'',
                 destructive = True\<rparr> s, False)"

definition handleSaveNotes_begin :: "props \<Rightarrow> state \<Rightarrow> state \<times> bool" where
  "handleSaveNotes_begin p s =
     (case shootId p of
        None \<Rightarrow> cannot_save s
      | Some sid \<Rightarrow>
          if sid = [] then cannot_save s
          else (s\<lparr>updates := updates s @ [(sid, notesUpdate_field p s, notesText s)]\<rparr>, True))"

definition handleSaveNotes_settled :: "outcome \<Rightarrow> state \<Rightarrow> state" where
  "handleSaveNotes_settled r s =
     (case r of
        Resolved \<Rightarrow>
          (add_toast \<lparr>title = ''Notes saved'',
                      description = ''Your upload notes have been saved successfully'',
                      destructive = False\<rparr> s)\<lparr>notesChanged := False\<rparr>
      | Rejected \<Rightarrow>
          add_toast \<lparr>title = ''Error saving notes'',
                     description = ''There was a problem saving your notes'',
                     destructive = True\<rparr> s)"

text \<open>The whole handler, when nothing else happens while it waits.\<close>

definition handleSaveNotes :: "props \<Rightarrow> outcome \<Rightarrow> state \<Rightarrow> state" where
  "handleSaveNotes p r s =
     (case handleSaveNotes_begin p s of
        (s1, False) \<Rightarrow> s1
      | (s1, True) \<Rightarrow> handleSaveNotes_settled r s1)"

subsection \<open>Validation and the queue\<close>

definition max_size :: nat where
  "max_size = 100 * 1024 * 1024"

text \<open>The body of the \<open>forEach\<close> in \<open>validateFiles\<close>, on the two arrays it pushes to.\<close>

definition validate_one ::
  "string list \<Rightarrow> js_file list \<times> (js_file \<times> string) list \<Rightarrow> js_file \<Rightarrow> js_file list \<times> (js_file \<times> string) list" where
  "validate_one allowed acc f =
     (if file_type f \<notin> set allowed then (fst acc, snd acc @ [(f, ''File type not supported'')])
      else if file_size f > max_size then (fst acc, snd acc @ [(f, ''File exceeds 100MB size limit'')])
      else (fst acc @ [f], snd acc))"

definition validate_loop :: "string list \<Rightarrow> js_file list \<Rightarrow> js_file list \<times> (js_file \<times> string) list" where
  "validate_loop allowed fileList = foldl (validate_one allowed) ([], []) fileList"

definition invalid_toast :: "(js_file \<times> string) list \<Rightarrow> toast" where
  "invalid_toast invalidFiles =
     \<lparr>title = string_of_nat (length invalidFiles) @ '' file(s) couldn'' @ [CHR 0x27] @ ''t be added'',
      description = join '', '' (map (\<lambda>(f, reason). file_name f @ '': '' @ reason) invalidFiles),
      destructive = True\<rparr>"

definition validateFiles :: "props \<Rightarrow> js_file list \<Rightarrow> state \<Rightarrow> state \<times> js_file list" where
  "validateFiles p fileList s =
     (let (validFiles, invalidFiles) = validate_loop (allowedFileTypes p) fileList
      in (if length invalidFiles > 0 then add_toast (invalid_toast invalidFiles) s else s, validFiles))"

text \<open>\<open>handleFileInputChange\<close> and \<open>handleDrop\<close>: both return at once on an empty list.\<close>

definition handleFileInputChange :: "props \<Rightarrow> js_file list \<Rightarrow> state \<Rightarrow> state" where
  "handleFileInputChange p fileList s =
     (if length fileList = 0 then s
      else (let (s1, validFiles) = validateFiles p fileList s
            in s1\<lparr>files := files s1 @ validFiles\<rparr>))"

definition handleDrop :: "props \<Rightarrow> js_file list \<Rightarrow> state \<Rightarrow> state" where
  "handleDrop p fileList s =
     (if length fileList = 0 then s
      else (let (s1, validFiles) = validateFiles p fileList s
            in s1\<lparr>files := files s1 @ validFiles\<rparr>))"

text \<open>\<open>new File([], name)\<close>: no content and no type option, so size 0 and the empty type.\<close>

definition new_File :: "string \<Rightarrow> js_file" where
  "new_File n = \<lparr>file_name = n, file_size = 0, file_type = []\<rparr>"

text \<open>The "+" button of an entry of the Dropbox or Google Drive listing.\<close>

definition add_remote :: "string \<Rightarrow> state \<Rightarrow> state" where
  "add_remote n s = s\<lparr>files := files s @ [new_File n]\<rparr>"

definition dropbox_listing :: "string list" where
  "dropbox_listing = [''client_project_photo.jpg'', ''property_tour.mov'', ''listings_package.zip'']"

definition google_listing :: "string list" where
  "google_listing = [''real_estate_front.jpg'', ''real_estate_kitchen.jpg'', ''property_walkthrough.mp4'']"

text \<open>\<open>prev.filter((_, i) => i !== index)\<close>, the index being any integer.\<close>

definition handleRemoveFile :: "int \<Rightarrow> state \<Rightarrow> state" where
  "handleRemoveFile index s =
     s\<lparr>files := map snd (filter (\<lambda>(i, f). int i \<noteq> index) (enumerate 0 (files s)))\<rparr>"

definition handleClearFiles :: "state \<Rightarrow> state" where
  "handleClearFiles s = s\<lparr>files := []\<rparr>"

subsection \<open>The transfer\<close>

text \<open>
  Double precision arithmetic, on numbers that are not negative. \<open>to_double\<close> rounds a
  rational to the nearest double, a tie going to the even significand: the significand
  has 53 bits, the exponent of its last bit is at least \<open>-1074\<close> (below that the
  subnormal doubles keep the spacing \<open>2^-1074\<close>), and a result of \<open>2^1024\<close> or more is
  \<open>Infinity\<close>.
\<close>

function bit_length :: "nat \<Rightarrow> nat" where
  "bit_length n = (if n = 0 then 0 else Suc (bit_length (n div 2)))"
  by pat_completeness auto
termination
  by (relation "measure (\<lambda>n. n)") auto

definition pow2 :: "int \<Rightarrow> rat" where
  "pow2 k = (if 0 \<le> k then 2 ^ nat k else 1 / 2 ^ nat (- k))"

text \<open>For a positive \<open>x\<close>, the \<open>k\<close> with \<open>2^k \<le> x < 2^(k+1)\<close>.\<close>

definition floor_log2 :: "rat \<Rightarrow> int" where
  "floor_log2 x =
     (if 1 \<le> x then int (bit_length (nat \<lfloor>x\<rfloor>)) - 1
      else - int (bit_length (nat (\<lceil>1 / x\<rceil> - 1))))"

definition round_half_even :: "rat \<Rightarrow> int" where
  "round_half_even x =
     (let f = \<lfloor>x\<rfloor>; d = x - of_int f
      in if d < 1 / 2 then f else if 1 / 2 < d then f + 1 else if even f then f else f + 1)"

definition to_double :: "rat \<Rightarrow> js_number" where
  "to_double x =
     (if x = 0 then Num 0
      else
        (let e = max (floor_log2 x - 52) (- 1074);
             y = of_int (round_half_even (x / pow2 e)) * pow2 e
         in if 2 ^ 1024 \<le> y then Infinity else Num y))"

text \<open>The operators \<open>*\<close> and \<open>/\<close>, and \<open>Math.round\<close>, which rounds a half upwards.\<close>

fun js_mul :: "js_number \<Rightarrow> js_number \<Rightarrow> js_number" where
  "js_mul (Num a) (Num b) = to_double (a * b)"
| "js_mul NaN y = NaN"
| "js_mul x NaN = NaN"
| "js_mul Infinity (Num b) = (if b = 0 then NaN else Infinity)"
| "js_mul (Num a) Infinity = (if a = 0 then NaN else Infinity)"
| "js_mul Infinity Infinity = Infinity"

fun js_div :: "js_number \<Rightarrow> js_number \<Rightarrow> js_number" where
  "js_div (Num a) (Num b) =
     (if b = 0 then (if a = 0 then NaN else Infinity) else to_double (a / b))"
| "js_div NaN y = NaN"
| "js_div x NaN = NaN"
| "js_div Infinity (Num b) = Infinity"
| "js_div (Num a) Infinity = Num 0"
| "js_div Infinity Infinity = NaN"

fun math_round :: "js_number \<Rightarrow> js_number" where
  "math_round (Num x) = Num (of_int \<lfloor>x + 1 / 2\<rfloor>)"
| "math_round Infinity = Infinity"
| "math_round NaN = NaN"

text \<open>A byte count as a JavaScript number; an undefined operand of \<open>/\<close> converts to \<open>NaN\<close>.\<close>

definition number_of_nat :: "nat \<Rightarrow> js_number" where
  "number_of_nat n = to_double (of_int (int n))"

definition number_of_optional :: "nat option \<Rightarrow> js_number" where
  "number_of_optional v = (case v of None \<Rightarrow> NaN | Some n \<Rightarrow> number_of_nat n)"

text \<open>\<open>Math.round((progressEvent.loaded * 100) / progressEvent.total)\<close>.\<close>

definition percentCompleted :: "progress_event \<Rightarrow> js_number" where
  "percentCompleted ev =
     math_round (js_div (js_mul (number_of_nat (loaded ev)) (Num 100))
       (number_of_optional (total ev)))"

definition onUploadProgress :: "progress_event \<Rightarrow> state \<Rightarrow> state" where
  "onUploadProgress ev s = s\<lparr>progress := percentCompleted ev\<rparr>"

definition no_files_toast :: toast where
  "no_files_toast =
     \<lparr>title = ''No files selected'', description = ''Please select files to upload'',
      destructive = True\<rparr>"

definition upload_failed_toast :: toast where
  "upload_failed_toast =
     \<lparr>title = ''Upload Failed'', description = ''Something went wrong while uploading.'',
      destructive = True\<rparr>"

definition upload_complete_toast :: "js_file list \<Rightarrow> toast" where
  "upload_complete_toast fs =
     \<lparr>title = ''Upload Complete'',
      description = string_of_nat (length fs) @ '' files uploaded successfully.'',
      destructive = False\<rparr>"

text \<open>The \<open>catch\<close> block of \<open>handleUpload\<close>.\<close>

definition handleUpload_catch :: "state \<Rightarrow> state" where
  "handleUpload_catch s = (add_toast upload_failed_toast s)\<lparr>uploading := False\<rparr>"

text \<open>
  \<open>handleUpload\<close> up to its \<open>await\<close>. The token is what \<open>localStorage\<close> holds under
  \<open>authToken\<close>. The result carries the closure when the request was issued and the
  handler is waiting for the response.
\<close>

definition handleUpload_begin ::
  "props \<Rightarrow> string option \<Rightarrow> state \<Rightarrow> state \<times> upload_closure option" where
  "handleUpload_begin p token s =
     (if length (files s) = 0 then (add_toast no_files_toast s, None)
      else
        (let s1 = s\<lparr>uploading := True\<rparr> in
         case token of
           None \<Rightarrow> (handleUpload_catch s1, None)
         | Some t \<Rightarrow>
             if t = [] then (handleUpload_catch s1, None)
             else
               (s1\<lparr>requests := requests s1 @
                     [\<lparr>req_shootId = shootId p, req_token = t, req_files = files s\<rparr>]\<rparr>,
                Some \<lparr>c_files = files s, c_notes = notesText s\<rparr>)))"

text \<open>
  \<open>handleUpload\<close> after its \<open>await\<close>. The props \<open>p\<close> and the closure \<open>c\<close> are those of
  the render in which the handler was started. On a response the rest of the \<open>try\<close>
  block runs: the notification, the call of \<open>onUploadComplete\<close> when there is one, and
  the four state updates; a callback that throws leaves the \<open>try\<close> block before the
  updates, for the \<open>catch\<close> block. A rejected request goes to the \<open>catch\<close> block at once.
\<close>

definition upload_done :: "state \<Rightarrow> state" where
  "upload_done s = s\<lparr>uploading := False, progress := Num 0, files := [], notesChanged := False\<rparr>"

definition handleUpload_settled :: "props \<Rightarrow> upload_closure \<Rightarrow> outcome \<Rightarrow> state \<Rightarrow> state" where
  "handleUpload_settled p c r s =
     (case r of
        Resolved \<Rightarrow>
          (let s1 = add_toast (upload_complete_toast (c_files c)) s in
           case onUploadComplete p of
             None \<Rightarrow> upload_done s1
           | Some f \<Rightarrow>
               (let s2 = s1\<lparr>completions := completions s1 @ [(c_files c, c_notes c)]\<rparr> in
                case f (c_files c) (c_notes c) of
                  Returned \<Rightarrow> upload_done s2
                | Threw \<Rightarrow> handleUpload_catch s2))
      | Rejected \<Rightarrow> handleUpload_catch s)"

text \<open>The callback is absent, or returns when called with these files and this note text.\<close>

definition callback_returns :: "props \<Rightarrow> js_file list \<Rightarrow> string \<Rightarrow> bool" where
  "callback_returns p fs n =
     (case onUploadComplete p of None \<Rightarrow> True | Some f \<Rightarrow> f fs n = Returned)"

text \<open>
  One whole run of \<open>handleUpload\<close>: the progress events \<open>evs\<close> arrive while it waits,
  then the request settles with \<open>r\<close>.
\<close>

definition handleUpload ::
  "props \<Rightarrow> string option \<Rightarrow> progress_event list \<Rightarrow> outcome \<Rightarrow> state \<Rightarrow> state" where
  "handleUpload p token evs r s =
     (case handleUpload_begin p token s of
        (s1, None) \<Rightarrow> s1
      | (s1, Some c) \<Rightarrow> handleUpload_settled p c r (foldl (\<lambda>a ev. onUploadProgress ev a) s1 evs))"

text \<open>
  The upload button is rendered only under \<open>!uploading\<close>; while a transfer runs a
  disabled "Uploading..." button without a handler stands in its place.
\<close>

definition click_upload ::
  "props \<Rightarrow> string option \<Rightarrow> state \<Rightarrow> state \<times> upload_closure option" where
  "click_upload p token s = (if \<not> uploading s then handleUpload_begin p token s else (s, None))"

subsection \<open>The destination table of the specification\<close>

text \<open>
  The table as the specification gives it, row by row: a role and, for each upload
  category, the field the note is written to. A role with no row goes to the generic
  shoot notes.
\<close>

definition destination_table :: "(string \<times> (upload_type \<Rightarrow> note_field)) list" where
  "destination_table =
     [(''photographer'', \<lambda>c. PhotographerNotes),
      (''editor'', \<lambda>c. EditingNotes),
      (''admin'', \<lambda>c. case c of Raw \<Rightarrow> PhotographerNotes | Edited \<Rightarrow> EditingNotes),
      (''superadmin'', \<lambda>c. case c of Raw \<Rightarrow> PhotographerNotes | Edited \<Rightarrow> EditingNotes)]"

definition spec_destination :: "string option \<Rightarrow> upload_type \<Rightarrow> note_field" where
  "spec_destination r c =
     (case r of
        None \<Rightarrow> ShootNotes
      | Some n \<Rightarrow> (case map_of destination_table n of None \<Rightarrow> ShootNotes | Some f \<Rightarrow> f c))"

text \<open>The validation policy: the type is in the allowed list and the size is within the limit.\<close>

definition satisfies_policy :: "string list \<Rightarrow> js_file \<Rightarrow> bool" where
  "satisfies_policy allowed f = (file_type f \<in> set allowed \<and> file_size f \<le> max_size)"

definition rejection_reason :: "string list \<Rightarrow> js_file \<Rightarrow> string" where
  "rejection_reason allowed f =
     (if file_type f \<in> set allowed then ''File exceeds 100MB size limit''
      else ''File type not supported'')"

subsection \<open>Example inputs\<close>

definition example_file :: js_file where
  "example_file = \<lparr>file_name = ''front.jpg'', file_size = 2097152, file_type = ''image/jpeg''\<rparr>"

definition example_props :: props where
  "example_props =
     \<lparr>shootId = Some ''17'', onUploadComplete = Some (\<lambda>fs n. Returned),
      allowedFileTypes = defaultAllowedFileTypes, initialNotes = ''bring a ladder'',
      role = Some ''photographer''\<rparr>"

text \<open>The same props with a completion callback that throws.\<close>

definition throwing_props :: props where
  "throwing_props = example_props\<lparr>onUploadComplete := Some (\<lambda>fs n. Threw)\<rparr>"

text \<open>One file staged, nothing in flight.\<close>

definition ready_state :: state where
  "ready_state = (init example_props)\<lparr>files := [example_file]\<rparr>"

text \<open>One file staged while a transfer is in flight, at 40 percent.\<close>

definition busy_state :: state where
  "busy_state = (init example_props)\<lparr>files := [example_file], uploading := True, progress := Num 40\<rparr>"

section \<open>Properties\<close>

subsection \<open>Auxiliary facts\<close>

lemma validate_loop_acc:
  "foldl (validate_one allowed) acc fs =
     (fst acc @ filter (satisfies_policy allowed) fs,
      snd acc @ map (\<lambda>f. (f, rejection_reason allowed f)) (filter (\<lambda>f. \<not> satisfies_policy allowed f) fs))"
proof (induction fs arbitrary: acc)
  case Nil
  then show ?case by simp
next
  case (Cons f fs)
  have ok: "satisfies_policy allowed f = (file_type f \<in> set allowed \<and> file_size f \<le> max_size)"
    by (simp add: satisfies_policy_def)
  have why: "rejection_reason allowed f =
      (if file_type f \<in> set allowed then ''File exceeds 100MB size limit''
       else ''File type not supported'')"
    by (simp add: rejection_reason_def)
  show ?case
    unfolding foldl_Cons Cons.IH
    by (simp add: validate_one_def ok why)
qed

lemma remove_enumerate:
  "map snd (filter (\<lambda>(i, f). int i \<noteq> k) (enumerate n xs)) =
     (if int n \<le> k \<and> k < int n + int (length xs)
      then take (nat k - n) xs @ drop (Suc (nat k - n)) xs else xs)"
proof (induction xs arbitrary: n)
  case Nil
  then show ?case by simp
next
  case (Cons x xs)
  show ?case
  proof (cases "int n = k")
    case True
    then have "map snd (filter (\<lambda>(i, f). int i \<noteq> k) (enumerate (Suc n) xs)) = xs"
      using Cons.IH [of "Suc n"] by simp
    with True show ?thesis by auto
  next
    case False
    show ?thesis
    proof (cases "int n < k \<and> k < int n + int (length (x # xs))")
      case True
      then have step: "nat k - n = Suc (nat k - Suc n)"
        by linarith
      from True have "int (Suc n) \<le> k \<and> k < int (Suc n) + int (length xs)"
        by simp
      then have "map snd (filter (\<lambda>(i, f). int i \<noteq> k) (enumerate (Suc n) xs)) =
          take (nat k - Suc n) xs @ drop (Suc (nat k - Suc n)) xs"
        using Cons.IH [of "Suc n"] by simp
      with True False show ?thesis
        by (simp add: step)
    next
      case out: False
      with False have "\<not> (int (Suc n) \<le> k \<and> k < int (Suc n) + int (length xs))"
        by auto
      then have "map snd (filter (\<lambda>(i, f). int i \<noteq> k) (enumerate (Suc n) xs)) = xs"
        unfolding Cons.IH [of "Suc n"] by (simp only: if_False)
      with out False show ?thesis
        by auto
    qed
  qed
qed

lemma validateFiles_result:
  "validateFiles p fs s =
     (if filter (\<lambda>f. \<not> satisfies_policy (allowedFileTypes p) f) fs = [] then s
      else add_toast (invalid_toast (map (\<lambda>f. (f, rejection_reason (allowedFileTypes p) f))
             (filter (\<lambda>f. \<not> satisfies_policy (allowedFileTypes p) f) fs))) s,
      filter (satisfies_policy (allowedFileTypes p)) fs)"
  by (simp add: validateFiles_def validate_loop_def validate_loop_acc)

lemma local_admission_validated:
  "files (handleFileInputChange p fs s) = files s @ filter (satisfies_policy (allowedFileTypes p)) fs \<and>
   files (handleDrop p fs s) = files s @ filter (satisfies_policy (allowedFileTypes p)) fs"
  by (simp add: handleFileInputChange_def handleDrop_def validateFiles_result add_toast_def)

lemma spec_destination_rows:
  "spec_destination (Some ''photographer'') c = PhotographerNotes"
  "spec_destination (Some ''editor'') c = EditingNotes"
  "spec_destination (Some ''admin'') Raw = PhotographerNotes"
  "spec_destination (Some ''admin'') Edited = EditingNotes"
  "spec_destination (Some ''superadmin'') Raw = PhotographerNotes"
  "spec_destination (Some ''superadmin'') Edited = EditingNotes"
  "spec_destination (Some ''client'') c = ShootNotes"
  "spec_destination None c = ShootNotes"
  by (simp_all add: spec_destination_def destination_table_def)

lemma floor_rat_numeral: "\<lfloor>numeral a / numeral b :: rat\<rfloor> = numeral a div numeral b"
  by (metis floor_divide_of_int_eq of_int_numeral)

lemma ceiling_rat_numeral: "\<lceil>numeral a / numeral b :: rat\<rceil> = - (- numeral a div numeral b)"
  by (metis ceiling_divide_eq_div of_int_numeral)

lemmas double_eval =
  percentCompleted_def number_of_nat_def number_of_optional_def to_double_def floor_log2_def
  pow2_def round_half_even_def Let_def floor_rat_numeral ceiling_rat_numeral

text \<open>
  The percentage at some events: exact quotients, a third, a quotient just below 99.5
  that the division rounds up to 99.5, a zero total and an undefined one.
\<close>

lemma percentCompleted_examples:
  "percentCompleted \<lparr>loaded = 50, total = Some 100\<rparr> = Num 50"
  "percentCompleted \<lparr>loaded = 10, total = Some 100\<rparr> = Num 10"
  "percentCompleted \<lparr>loaded = 1, total = Some 3\<rparr> = Num 33"
  "percentCompleted \<lparr>loaded = 70016900456910, total = Some 70368744177799\<rparr> = Num 100"
  "percentCompleted \<lparr>loaded = 5, total = Some 0\<rparr> = Infinity"
  "percentCompleted \<lparr>loaded = 0, total = Some 0\<rparr> = NaN"
  "percentCompleted \<lparr>loaded = 5, total = None\<rparr> = NaN"
  by (simp_all add: double_eval)

lemma number_of_nat_examples:
  "number_of_nat 9007199254740993 = Num 9007199254740992"
  "number_of_nat 9007199254740995 = Num 9007199254740996"
  by (simp_all add: double_eval)

lemma handleUpload_settled_returned:
  assumes "callback_returns p (c_files c) (c_notes c)"
  shows "handleUpload_settled p c Resolved s =
     upload_done ((add_toast (upload_complete_toast (c_files c)) s)
       \<lparr>completions := completions s @
          (case onUploadComplete p of None \<Rightarrow> [] | Some f \<Rightarrow> [(c_files c, c_notes c)])\<rparr>)"
  using assms
  by (simp add: handleUpload_settled_def callback_returns_def add_toast_def Let_def
      split: option.splits)

lemma handleUpload_settled_threw:
  assumes "onUploadComplete p = Some f" and "f (c_files c) (c_notes c) = Threw"
  shows "handleUpload_settled p c Resolved s =
     handleUpload_catch ((add_toast (upload_complete_toast (c_files c)) s)
       \<lparr>completions := completions s @ [(c_files c, c_notes c)]\<rparr>)"
  using assms
  by (simp add: handleUpload_settled_def add_toast_def Let_def)


lemma handleUpload_unfold:
  "files s \<noteq> [] \<Longrightarrow> \<not> falsy token \<Longrightarrow>
   handleUpload p token evs r s =
     handleUpload_settled p \<lparr>c_files = files s, c_notes = notesText s\<rparr> r
       (foldl (\<lambda>a ev. onUploadProgress ev a)
          (s\<lparr>uploading := True,
             requests := requests s @
               [\<lparr>req_shootId = shootId p, req_token = the token, req_files = files s\<rparr>]\<rparr>) evs)"
  by (auto simp: handleUpload_def handleUpload_begin_def falsy_def split: option.splits)

lemma progress_events_only_progress:
  "foldl (\<lambda>a ev. onUploadProgress ev a) s evs =
     s\<lparr>progress := (if evs = [] then progress s else percentCompleted (last evs))\<rparr>"
  by (induction evs arbitrary: s) (auto simp: onUploadProgress_def)

lemma handleUpload_begin_progress:
  "progress (fst (handleUpload_begin p token s)) = progress s"
  by (simp add: handleUpload_begin_def handleUpload_catch_def add_toast_def Let_def
      split: option.splits)

lemma busy_state_simps:
  "uploading busy_state" "files busy_state = [example_file]" "progress busy_state = Num 40"
  "requests busy_state = []"
  by (simp_all add: busy_state_def init_def)

subsection \<open>The claims\<close>

text \<open>
  C1, as stated: while a transfer is in flight, \<open>handleUpload\<close> itself refuses a second
  call. It does not: at \<open>busy_state\<close> (one file staged, \<open>uploading\<close> true) and with a
  token present, the handler issues a request and starts waiting for it, since it never
  reads \<open>uploading\<close>.
\<close>

theorem reentry_not_refused_by_handler:
  "uploading busy_state \<and>
   requests (fst (handleUpload_begin example_props (Some ''token'') busy_state)) =
     requests busy_state @
       [\<lparr>req_shootId = Some ''17'', req_token = ''token'', req_files = [example_file]\<rparr>] \<and>
   snd (handleUpload_begin example_props (Some ''token'') busy_state) =
     Some \<lparr>c_files = [example_file], c_notes = ''bring a ladder''\<rparr>"
  by (simp add: handleUpload_begin_def busy_state_def init_def example_props_def)

text \<open>
  C1, amended: while \<open>uploading\<close> is true the upload button is not rendered, so a click
  cannot reach the handler and nothing changes; the handler called directly leaves the
  progress percentage as it is, and issues a request exactly when the queue is not
  empty and a token is present.
\<close>

theorem reentry_gated_by_ui:
  assumes "uploading s"
  shows "click_upload p token s = (s, None) \<and>
         progress (fst (handleUpload_begin p token s)) = progress s \<and>
         requests (fst (handleUpload_begin p token s)) =
           requests s @
             (case token of
                None \<Rightarrow> []
              | Some t \<Rightarrow>
                  if files s = [] \<or> t = [] then []
                  else [\<lparr>req_shootId = shootId p, req_token = t, req_files = files s\<rparr>])"
  using assms
  by (simp add: click_upload_def handleUpload_begin_def handleUpload_catch_def add_toast_def
      split: option.splits)

theorem reentry_gated_by_ui_witness:
  "uploading busy_state \<and>
   click_upload example_props (Some ''token'') busy_state = (busy_state, None) \<and>
   progress (fst (handleUpload_begin example_props (Some ''token'') busy_state)) = Num 40 \<and>
   requests (fst (handleUpload_begin example_props (Some ''token'') busy_state)) =
     [\<lparr>req_shootId = Some ''17'', req_token = ''token'', req_files = [example_file]\<rparr>]"
  using reentry_gated_by_ui [of busy_state example_props "Some ''token''"]
  by (simp add: busy_state_simps example_props_def example_file_def)

text \<open>
  C2: every admission path admits only files that satisfy the validation policy. The
  file picker and the drop zone do (\<open>local_admission_validated\<close>); the "+" buttons of the
  Dropbox and Google Drive listings append \<open>new File([], name)\<close> without validating it,
  and that file has the empty type, which the allowed list does not hold.
\<close>

theorem remote_admission_unvalidated:
  "files (add_remote ''client_project_photo.jpg'' (init example_props)) =
     [\<lparr>file_name = ''client_project_photo.jpg'', file_size = 0, file_type = ''''\<rparr>] \<and>
   \<not> satisfies_policy (allowedFileTypes example_props)
       (last (files (add_remote ''client_project_photo.jpg'' (init example_props)))) \<and>
   list_all (\<lambda>n. \<not> satisfies_policy (allowedFileTypes example_props)
       (last (files (add_remote n (init example_props))))) (dropbox_listing @ google_listing)"
  by (simp add: add_remote_def init_def new_File_def satisfies_policy_def example_props_def
      defaultAllowedFileTypes_def dropbox_listing_def google_listing_def)




text \<open>
  C4: a transfer attempt that fails, because the token is missing or because the request
  is rejected (network failure, response outside 2xx), leaves the queue, the note text and
  the dirty flag as they were before the attempt, and \<open>uploading\<close> ends false.
\<close>

theorem upload_failure:
  assumes "files s \<noteq> []" and "falsy token \<or> r = Rejected"
  shows "files (handleUpload p token evs r s) = files s \<and>
         notesText (handleUpload p token evs r s) = notesText s \<and>
         notesChanged (handleUpload p token evs r s) = notesChanged s \<and>
         uploading (handleUpload p token evs r s) = False"
proof (cases "falsy token")
  case True
  with assms(1) show ?thesis
    by (auto simp: handleUpload_def handleUpload_begin_def handleUpload_catch_def add_toast_def
        falsy_def split: option.splits)
next
  case False
  with assms have "r = Rejected" by simp
  with False assms(1) show ?thesis
    by (simp add: handleUpload_unfold progress_events_only_progress handleUpload_settled_def
        handleUpload_catch_def add_toast_def)
qed

theorem upload_failure_witness:
  "files ready_state \<noteq> [] \<and>
   files (handleUpload example_props None [] Resolved ready_state) = [example_file] \<and>
   uploading (handleUpload example_props None [] Resolved ready_state) = False \<and>
   files (handleUpload example_props (Some ''token'') [\<lparr>loaded = 50, total = Some 100\<rparr>] Rejected ready_state) = [example_file] \<and>
   notesText (handleUpload example_props (Some ''token'') [\<lparr>loaded = 50, total = Some 100\<rparr>] Rejected ready_state) = ''bring a ladder'' \<and>
   notesChanged (handleUpload example_props (Some ''token'') [\<lparr>loaded = 50, total = Some 100\<rparr>] Rejected ready_state) = False \<and>
   uploading (handleUpload example_props (Some ''token'') [\<lparr>loaded = 50, total = Some 100\<rparr>] Rejected ready_state) = False"
proof -
  have staged: "files ready_state \<noteq> []"
    by (simp add: ready_state_def)
  have no_token: "falsy None \<or> Resolved = Rejected"
    by (simp add: falsy_def)
  have rejected: "falsy (Some ''token'') \<or> Rejected = Rejected"
    by simp
  from upload_failure [OF staged no_token, of example_props "[]"]
    upload_failure [OF staged rejected, of example_props "[\<lparr>loaded = 50, total = Some 100\<rparr>]"] staged
  show ?thesis
    by (simp add: ready_state_def init_def example_props_def)
qed

text \<open>
  C5: the progress percentage is 0 at the start of every session, also after a failed
  one, and does not decrease within a session. Only the success branch of \<open>handleUpload\<close>
  resets \<open>progress\<close>; neither the \<open>catch\<close> block nor the start of the handler does.
  After a session that failed at 50 percent the next session starts at 50, and its first
  progress event, at 10 percent, lowers it.
\<close>

theorem progress_not_reset_after_failure:
  "progress (handleUpload example_props (Some ''token'') [\<lparr>loaded = 50, total = Some 100\<rparr>] Rejected ready_state) = Num 50 \<and>
   progress (fst (handleUpload_begin example_props (Some ''token'')
      (handleUpload example_props (Some ''token'') [\<lparr>loaded = 50, total = Some 100\<rparr>] Rejected ready_state))) = Num 50 \<and>
   snd (handleUpload_begin example_props (Some ''token'')
      (handleUpload example_props (Some ''token'') [\<lparr>loaded = 50, total = Some 100\<rparr>] Rejected ready_state)) \<noteq> None \<and>
   progress (onUploadProgress \<lparr>loaded = 10, total = Some 100\<rparr> (fst (handleUpload_begin example_props (Some ''token'')
      (handleUpload example_props (Some ''token'') [\<lparr>loaded = 50, total = Some 100\<rparr>] Rejected ready_state)))) = Num 10"
  by (simp add: handleUpload_def handleUpload_begin_def handleUpload_settled_def
      handleUpload_catch_def add_toast_def onUploadProgress_def percentCompleted_examples
      ready_state_def init_def example_props_def Let_def)

text \<open>
  C6: \<open>validateFiles\<close> splits its input: the accepted files are those whose type is allowed
  and whose size is at most 100 MiB, in their original order; every other file is
  reported once, in input order, with "File type not supported" when its type is not
  allowed and with "File exceeds 100MB size limit" otherwise (the type is checked first);
  a notification is raised when a file was rejected, and the queue is not touched.
\<close>

theorem validateFiles_partition:
  "snd (validateFiles p fs s) = filter (satisfies_policy (allowedFileTypes p)) fs \<and>
   snd (validate_loop (allowedFileTypes p) fs) =
     map (\<lambda>f. (f, rejection_reason (allowedFileTypes p) f))
       (filter (\<lambda>f. \<not> satisfies_policy (allowedFileTypes p) f) fs) \<and>
   toasts (fst (validateFiles p fs s)) =
     toasts s @ (if snd (validate_loop (allowedFileTypes p) fs) = [] then []
                 else [invalid_toast (snd (validate_loop (allowedFileTypes p) fs))]) \<and>
   files (fst (validateFiles p fs s)) = files s"
  by (simp add: validateFiles_result validate_loop_def validate_loop_acc add_toast_def)

text \<open>
  C7: the field that \<open>handleSaveNotes\<close> writes is the one of the specification's table for
  every role (also an absent or unknown one) and category, and the call of \<open>updateShoot\<close>
  carries that field with the current note text.
\<close>

theorem save_notes_destination:
  "notesUpdate_field p s = spec_destination (role p) (uploadType s) \<and>
   updates (handleSaveNotes p r s) =
     updates s @
       (case shootId p of
          None \<Rightarrow> []
        | Some sid \<Rightarrow>
            if sid = [] then []
            else [(sid, spec_destination (role p) (uploadType s), notesText s)])"
proof -
  have field: "notesUpdate_field p s = spec_destination (role p) (uploadType s)"
    by (cases "role p"; cases "uploadType s")
      (auto simp: notesUpdate_field_def spec_destination_def destination_table_def)
  have "updates (handleSaveNotes_settled r a) = updates a" for a
    by (cases r) (simp_all add: handleSaveNotes_settled_def add_toast_def)
  then have "updates (handleSaveNotes p r s) =
      updates s @
        (case shootId p of
           None \<Rightarrow> []
         | Some sid \<Rightarrow> if sid = [] then [] else [(sid, notesUpdate_field p s, notesText s)])"
    by (simp add: handleSaveNotes_def handleSaveNotes_begin_def cannot_save_def add_toast_def
        split: option.splits)
  with field show ?thesis
    by (simp split: option.splits)
qed

text \<open>
  C8, as stated: the dirty flag is false after every transfer that succeeded. With a
  completion callback that throws it is not: the note was edited, the request resolves,
  the callback is called and throws, and \<open>setNotesChanged(false)\<close> is never reached.
\<close>

theorem dirty_flag_kept_by_throwing_callback:
  "files (handleNotesChange ''use the side door'' ready_state) \<noteq> [] \<and>
   \<not> falsy (Some ''token'') \<and>
   completions (handleUpload throwing_props (Some ''token'') [] Resolved
      (handleNotesChange ''use the side door'' ready_state)) =
     [([example_file], ''use the side door'')] \<and>
   notesChanged (handleUpload throwing_props (Some ''token'') [] Resolved
      (handleNotesChange ''use the side door'' ready_state)) = True"
  by (simp add: handleUpload_def handleUpload_begin_def handleUpload_settled_def
      handleUpload_catch_def handleNotesChange_def add_toast_def falsy_def
      throwing_props_def example_props_def ready_state_def init_def Let_def)

text \<open>
  C8, amended: the dirty flag \<open>notesChanged\<close> is false initially and stays false when the
  initial text is loaded; it is true after every edit; it is false after a save that
  succeeded, and after a transfer that succeeded and whose completion callback is absent
  or returned; a save that failed leaves it as it was.
\<close>

theorem dirty_flag:
  "notesChanged (init p) = False \<and>
   (notesText (initialNotes_effect p s) \<noteq> notesText s \<longrightarrow>
      notesChanged (initialNotes_effect p s) = False) \<and>
   notesChanged (initialNotes_effect p s) = notesChanged s \<and>
   notesChanged (handleNotesChange v s) = True \<and>
   notesChanged (handleSaveNotes_settled Resolved s) = False \<and>
   (\<not> falsy (shootId p) \<longrightarrow> notesChanged (handleSaveNotes p Resolved s) = False) \<and>
   (callback_returns p (c_files c) (c_notes c) \<longrightarrow>
      notesChanged (handleUpload_settled p c Resolved s) = False) \<and>
   (files s \<noteq> [] \<and> \<not> falsy token \<and> callback_returns p (files s) (notesText s) \<longrightarrow>
      notesChanged (handleUpload p token evs Resolved s) = False) \<and>
   notesChanged (handleSaveNotes_settled Rejected s) = notesChanged s \<and>
   notesChanged (handleSaveNotes p Rejected s) = notesChanged s"
proof -
  have initially: "notesChanged (init p) = False"
    by (simp add: init_def)
  have load: "notesChanged (initialNotes_effect p s) = notesChanged s"
    by (simp add: initialNotes_effect_def)
  have loaded_clean: "notesText (initialNotes_effect p s) \<noteq> notesText s \<longrightarrow>
      notesChanged (initialNotes_effect p s) = False"
    by (simp add: initialNotes_effect_def)
  have edit: "notesChanged (handleNotesChange v s) = True"
    by (simp add: handleNotesChange_def)
  have saved: "notesChanged (handleSaveNotes_settled Resolved a) = False" for a
    by (simp add: handleSaveNotes_settled_def)
  have not_saved: "notesChanged (handleSaveNotes_settled Rejected a) = notesChanged a" for a
    by (simp add: handleSaveNotes_settled_def add_toast_def)
  have save_ok: "\<not> falsy (shootId p) \<longrightarrow> notesChanged (handleSaveNotes p Resolved s) = False"
    by (simp add: handleSaveNotes_def handleSaveNotes_begin_def falsy_def saved
        split: option.splits)
  have save_failed: "notesChanged (handleSaveNotes p Rejected s) = notesChanged s"
    by (simp add: handleSaveNotes_def handleSaveNotes_begin_def cannot_save_def add_toast_def
        not_saved split: option.splits)
  have sent: "callback_returns p (c_files k) (c_notes k) \<longrightarrow>
      notesChanged (handleUpload_settled p k Resolved a) = False" for k a
    by (simp add: handleUpload_settled_returned upload_done_def)
  have upload_ok: "files s \<noteq> [] \<and> \<not> falsy token \<and> callback_returns p (files s) (notesText s) \<longrightarrow>
      notesChanged (handleUpload p token evs Resolved s) = False"
    using sent [of "\<lparr>c_files = files s, c_notes = notesText s\<rparr>"]
    by (simp add: handleUpload_unfold)
  from initially load loaded_clean edit saved save_ok sent [of c s] upload_ok not_saved save_failed
  show ?thesis
    by blast
qed

theorem dirty_flag_witness:
  "notesChanged (init example_props) = False \<and>
   notesText (initialNotes_effect example_props (init (example_props\<lparr>initialNotes := []\<rparr>))) \<noteq>
     notesText (init (example_props\<lparr>initialNotes := []\<rparr>)) \<and>
   notesChanged (initialNotes_effect example_props (init (example_props\<lparr>initialNotes := []\<rparr>))) = False \<and>
   notesChanged (handleNotesChange ''use the side door'' ready_state) = True \<and>
   \<not> falsy (shootId example_props) \<and>
   notesChanged (handleSaveNotes example_props Resolved (handleNotesChange ''use the side door'' ready_state)) = False \<and>
   notesChanged (handleSaveNotes example_props Rejected (handleNotesChange ''use the side door'' ready_state)) = True \<and>
   files (handleNotesChange ''use the side door'' ready_state) \<noteq> [] \<and> \<not> falsy (Some ''token'') \<and>
   callback_returns example_props (files (handleNotesChange ''use the side door'' ready_state))
     (notesText (handleNotesChange ''use the side door'' ready_state)) \<and>
   notesChanged (handleUpload example_props (Some ''token'') [] Resolved
      (handleNotesChange ''use the side door'' ready_state)) = False \<and>
   callback_returns example_props (c_files \<lparr>c_files = [example_file], c_notes = ''use the side door''\<rparr>)
     (c_notes \<lparr>c_files = [example_file], c_notes = ''use the side door''\<rparr>) \<and>
   notesChanged (handleUpload_settled example_props
      \<lparr>c_files = [example_file], c_notes = ''use the side door''\<rparr> Resolved
      (handleNotesChange ''use the side door'' ready_state)) = False"
proof -
  have load: "notesText (initialNotes_effect example_props (init (example_props\<lparr>initialNotes := []\<rparr>))) \<noteq>
      notesText (init (example_props\<lparr>initialNotes := []\<rparr>))"
    by (simp add: initialNotes_effect_def init_def example_props_def)
  have target: "\<not> falsy (shootId example_props)"
    by (simp add: falsy_def example_props_def)
  have staged: "files (handleNotesChange ''use the side door'' ready_state) \<noteq> [] \<and>
      \<not> falsy (Some ''token'')"
    by (simp add: handleNotesChange_def ready_state_def falsy_def)
  have dirty: "notesChanged (handleNotesChange ''use the side door'' ready_state) = True"
    by (simp add: handleNotesChange_def)
  have returns: "callback_returns example_props fs n" for fs n
    by (simp add: callback_returns_def example_props_def)
  from load target staged dirty returns
    dirty_flag [where p = example_props and s = "init (example_props\<lparr>initialNotes := []\<rparr>)"]
    dirty_flag [where p = example_props and s = "handleNotesChange ''use the side door'' ready_state"
      and token = "Some ''token''" and evs = "[]"
      and c = "\<lparr>c_files = [example_file], c_notes = ''use the side door''\<rparr>"]
    dirty_flag [where p = example_props and s = ready_state and v = "''use the side door''"]
  show ?thesis
    by simp
qed

text \<open>
  C9: \<open>handleRemoveFile\<close> is defined for every integer index: an index within bounds
  removes the element at that position and keeps the others in order; any other index
  leaves the queue as it is.
\<close>

theorem handleRemoveFile_total:
  "files (handleRemoveFile index s) =
     (if 0 \<le> index \<and> index < int (length (files s))
      then take (nat index) (files s) @ drop (Suc (nat index)) (files s)
      else files s)"
  by (simp add: handleRemoveFile_def remove_enumerate)

text \<open>
  C10: while the note is dirty, a new \<open>initialNotes\<close> never replaces the note text; it is
  adopted exactly when the note is not dirty and the new text differs from the current
  one.
\<close>

theorem initial_notes_keep_dirty_text:
  "(notesChanged s \<longrightarrow> initialNotes_effect p s = s) \<and>
   notesText (initialNotes_effect p s) =
     (if \<not> notesChanged s \<and> initialNotes p \<noteq> notesText s then initialNotes p else notesText s)"
  by (simp add: initialNotes_effect_def)

theorem initial_notes_keep_dirty_text_witness:
  "notesChanged (handleNotesChange ''use the side door'' ready_state) \<and>
   initialNotes (example_props\<lparr>initialNotes := ''new brief''\<rparr>) \<noteq>
     notesText (handleNotesChange ''use the side door'' ready_state) \<and>
   notesText (initialNotes_effect (example_props\<lparr>initialNotes := ''new brief''\<rparr>)
      (handleNotesChange ''use the side door'' ready_state)) = ''use the side door'' \<and>
   notesText (initialNotes_effect (example_props\<lparr>initialNotes := ''new brief''\<rparr>) ready_state) =
     ''new brief''"
proof -
  have dirty: "notesChanged (handleNotesChange ''use the side door'' ready_state)"
    by (simp add: handleNotesChange_def)
  have clean: "\<not> notesChanged ready_state \<and> notesText ready_state = ''bring a ladder''"
    by (simp add: ready_state_def init_def example_props_def)
  have edited: "notesText (handleNotesChange ''use the side door'' ready_state) = ''use the side door''"
    by (simp add: handleNotesChange_def)
  from dirty clean edited
    initial_notes_keep_dirty_text [of "handleNotesChange ''use the side door'' ready_state"
      "example_props\<lparr>initialNotes := ''new brief''\<rparr>"]
    initial_notes_keep_dirty_text [of ready_state "example_props\<lparr>initialNotes := ''new brief''\<rparr>"]
  show ?thesis
    by simp
qed

end
